theory Spec2Isabelle
  imports Complex_Main
begin

section \<open>Lennard-Jones cutoff analysis (Analysis_of_Cutoff_Points.py)\<close>

text \<open>
  A shallow embedding of the numerical procedure of \<^verbatim>\<open>Analysis_of_Cutoff_Points.py\<close>.

  Numbers. A Python \<^verbatim>\<open>float\<close> is modelled in exact arithmetic: a finite value is a
  \<^typ>\<open>real\<close>, and the three special values of the format are constructors of their own.
  Rounding and the finite range of the binary format are not part of the model; literals
  such as \<^verbatim>\<open>0.01\<close> stand for the decimal fraction they denote.

  Errors. The only exception the arithmetic of the module can raise in exact arithmetic
  is \<^verbatim>\<open>ZeroDivisionError\<close> (true division by zero); a function that can raise returns
  a sum, \<open>Inl\<close> the exception.

  Effects. \<^verbatim>\<open>print\<close> appends to the standard output, which is threaded through the
  functions that print as a list of lines. The calls into matplotlib only hand the
  computed data over for drawing; the model keeps the data and leaves the drawing out.
\<close>

subsection \<open>Floats, exceptions and the operators the module uses\<close>

datatype py_error = ZeroDivisionError

datatype pyfloat = Fin real | PInf | NInf | NaN

text \<open>\<^verbatim>\<open>a / b\<close> on two finite floats.\<close>

definition py_truediv :: "real \<Rightarrow> real \<Rightarrow> py_error + real" where
  "py_truediv a b = (if b = 0 then Inl ZeroDivisionError else Inr (a / b))"

text \<open>\<^verbatim>\<open>x / d\<close>, \<^verbatim>\<open>abs(x)\<close>, \<^verbatim>\<open>x * c\<close> and \<^verbatim>\<open>x > c\<close> where \<open>x\<close> may be infinite or not a number
  and \<open>d\<close>, \<open>c\<close> are finite.\<close>

definition pf_truediv :: "pyfloat \<Rightarrow> real \<Rightarrow> py_error + pyfloat" where
  "pf_truediv x d =
     (if d = 0 then Inl ZeroDivisionError
      else Inr (case x of
                  Fin a \<Rightarrow> Fin (a / d)
                | PInf \<Rightarrow> (if 0 < d then PInf else NInf)
                | NInf \<Rightarrow> (if 0 < d then NInf else PInf)
                | NaN \<Rightarrow> NaN))"

definition pf_abs :: "pyfloat \<Rightarrow> pyfloat" where
  "pf_abs x = (case x of Fin a \<Rightarrow> Fin \<bar>a\<bar> | PInf \<Rightarrow> PInf | NInf \<Rightarrow> PInf | NaN \<Rightarrow> NaN)"

definition pf_mul :: "pyfloat \<Rightarrow> real \<Rightarrow> pyfloat" where
  "pf_mul x c =
     (case x of
        Fin a \<Rightarrow> Fin (a * c)
      | PInf \<Rightarrow> (if 0 < c then PInf else if c < 0 then NInf else NaN)
      | NInf \<Rightarrow> (if 0 < c then NInf else if c < 0 then PInf else NaN)
      | NaN \<Rightarrow> NaN)"

definition pf_gt :: "pyfloat \<Rightarrow> real \<Rightarrow> bool" where
  "pf_gt x c = (case x of Fin a \<Rightarrow> c < a | PInf \<Rightarrow> True | NInf \<Rightarrow> False | NaN \<Rightarrow> False)"

subsection \<open>The potential\<close>

text \<open>
  \<^verbatim>\<open>
  def lennard_jones(r, epsilon=1.0, sigma=1.0):
      if r < 0.01:
          return float('inf')
      sr6 = (sigma / r)**6
      return 4 * epsilon * (sr6**2 - sr6)
  \<close>
\<close>

definition lennard_jones :: "real \<Rightarrow> real \<Rightarrow> real \<Rightarrow> py_error + pyfloat" where
  "lennard_jones r epsilon sigma =
     (if r < 0.01 then Inr PInf
      else case py_truediv sigma r of
             Inl err \<Rightarrow> Inl err
           | Inr q \<Rightarrow> (let sr6 = q ^ 6 in Inr (Fin (4 * epsilon * (sr6\<^sup>2 - sr6)))))"

text \<open>
  The same body as a big-step relation over the standard output \<open>out\<close>: one rule for
  each way through the function, each giving the outcome and the output afterwards.
\<close>

inductive lennard_jones_exec ::
  "'o list \<Rightarrow> real \<Rightarrow> real \<Rightarrow> real \<Rightarrow> (py_error + pyfloat) \<times> 'o list \<Rightarrow> bool" where
  clamp: "r < 0.01 \<Longrightarrow> lennard_jones_exec out r epsilon sigma (Inr PInf, out)"
| raise: "\<not> r < 0.01 \<Longrightarrow> py_truediv sigma r = Inl err \<Longrightarrow>
      lennard_jones_exec out r epsilon sigma (Inl err, out)"
| formula: "\<not> r < 0.01 \<Longrightarrow> py_truediv sigma r = Inr q \<Longrightarrow> sr6 = q ^ 6 \<Longrightarrow>
      lennard_jones_exec out r epsilon sigma (Inr (Fin (4 * epsilon * (sr6\<^sup>2 - sr6))), out)"

code_pred lennard_jones_exec .

subsection \<open>The library function the module samples with\<close>

text \<open>
  \<^verbatim>\<open>numpy.linspace(start, stop, num)\<close> with its defaults: \<open>num\<close> evenly spaced samples,
  the end point included and stored exactly. (\<open>ndiv\<close> is numpy's local \<^verbatim>\<open>div\<close>.)
\<close>

definition linspace :: "real \<Rightarrow> real \<Rightarrow> nat \<Rightarrow> real list" where
  "linspace start stop num =
     (let ndiv = num - 1;
          delta = stop - start;
          y = map real [0..<num]
      in if 0 < ndiv
         then (let step = delta / real ndiv
               in (map (\<lambda>k. k * step + start) y)[ndiv := stop])
         else map (\<lambda>k. k * delta + start) y)"

subsection \<open>Standard output\<close>

text \<open>
  One element for each call of \<^verbatim>\<open>print\<close>. A literal is kept as its text, in UTF-8
  (a line feed inside a literal is part of the text). A formatted line is kept as the
  values its f-string formats, in the order of its fields; padding and the number of
  decimals shown are presentation and are left out.
\<close>

datatype out_line =
    Text string
  | Heading string string string string
  | Row string pyfloat pyfloat string
  | Impact string real real

definition sigma_utf8 :: string where
  "sigma_utf8 = [CHR 0xCF, CHR 0x83]"

definition epsilon_utf8 :: string where
  "epsilon_utf8 = [CHR 0xCE, CHR 0xB5]"

definition bullet_utf8 :: string where
  "bullet_utf8 = [CHR 0xE2, CHR 0x80, CHR 0xA2]"

subsection \<open>analyze\_cutoff\_comparison\<close>

text \<open>The local constants \<^verbatim>\<open>cutoffs\<close>, \<^verbatim>\<open>cutoff_labels\<close> and \<^verbatim>\<open>colors\<close>.\<close>

definition cutoffs :: "real list" where
  "cutoffs = [2.000, 2.5, 3.0]"

definition cutoff_labels :: "string list" where
  "cutoff_labels = [''2.0'' @ sigma_utf8, ''2.5'' @ sigma_utf8, ''3.0'' @ sigma_utf8]"

definition colors :: "string list" where
  "colors = [''red'', ''blue'', ''green'']"

text \<open>\<^verbatim>\<open>[lennard_jones(r, epsilon, sigma) for r in r_values]\<close>: the first exception ends the
  comprehension.\<close>

fun lennard_jones_list :: "real list \<Rightarrow> real \<Rightarrow> real \<Rightarrow> py_error + pyfloat list" where
  "lennard_jones_list [] epsilon sigma = Inr []"
| "lennard_jones_list (r # rs) epsilon sigma =
     (case lennard_jones r epsilon sigma of
        Inl err \<Rightarrow> Inl err
      | Inr v \<Rightarrow> (case lennard_jones_list rs epsilon sigma of
                   Inl err \<Rightarrow> Inl err
                 | Inr vs \<Rightarrow> Inr (v # vs)))"

text \<open>
  The two loops that mark the cutoffs on a plot:
  \<^verbatim>\<open>
  for cutoff, label, color in zip(cutoffs, cutoff_labels, colors):
      potential_at_cutoff = lennard_jones(cutoff, epsilon, sigma)
      plt.axvline(x=cutoff, color=color, ..., label=f'{label}')
      plt.plot(cutoff, potential_at_cutoff, 'o', color=color, markersize=8)
  \<close>
  The result lists what was drawn: the point, its label and its colour.
\<close>

fun mark_cutoffs ::
  "(real \<times> string \<times> string) list \<Rightarrow> real \<Rightarrow> real \<Rightarrow>
     py_error + (real \<times> pyfloat \<times> string \<times> string) list" where
  "mark_cutoffs [] epsilon sigma = Inr []"
| "mark_cutoffs ((cutoff, label, color) # rest) epsilon sigma =
     (case lennard_jones cutoff epsilon sigma of
        Inl err \<Rightarrow> Inl err
      | Inr potential_at_cutoff \<Rightarrow>
          (case mark_cutoffs rest epsilon sigma of
             Inl err \<Rightarrow> Inl err
           | Inr marks \<Rightarrow> Inr ((cutoff, potential_at_cutoff, label, color) # marks)))"

text \<open>
  The table of the figure:
  \<^verbatim>\<open>
  for cutoff in cutoffs:
      potential = lennard_jones(cutoff, epsilon, sigma)
      percentage = abs(potential / epsilon) * 100
      comparison_data.append([f'{cutoff:.3f}..', f'{potential:.6f}..', f'{percentage:.3f}%'])
  \<close>
\<close>

fun compare_cutoffs ::
  "real list \<Rightarrow> real \<Rightarrow> real \<Rightarrow> py_error + (real \<times> pyfloat \<times> pyfloat) list" where
  "compare_cutoffs [] epsilon sigma = Inr []"
| "compare_cutoffs (cutoff # rest) epsilon sigma =
     (case lennard_jones cutoff epsilon sigma of
        Inl err \<Rightarrow> Inl err
      | Inr potential \<Rightarrow>
          (case pf_truediv potential epsilon of
             Inl err \<Rightarrow> Inl err
           | Inr q \<Rightarrow>
               (let percentage = pf_mul (pf_abs q) 100
                in case compare_cutoffs rest epsilon sigma of
                     Inl err \<Rightarrow> Inl err
                   | Inr comparison \<Rightarrow> Inr ((cutoff, potential, percentage) # comparison))))"

text \<open>
  The tier of a percentage:
  \<^verbatim>\<open>
  if percentage > 5.0:
      significance = "High"
  elif percentage > 2.0:
      significance = "Significant"
  elif percentage > 1.0:
      significance = "Moderate"
  else:
      significance = "Negligible"
  \<close>
\<close>

definition significance :: "pyfloat \<Rightarrow> string" where
  "significance percentage =
     (if pf_gt percentage 5.0 then ''High''
      else if pf_gt percentage 2.0 then ''Significant''
      else if pf_gt percentage 1.0 then ''Moderate''
      else ''Negligible'')"

text \<open>
  The rows of the printed report:
  \<^verbatim>\<open>
  for cutoff, label, color in zip(cutoffs, cutoff_labels, colors):
      potential = lennard_jones(cutoff, epsilon, sigma)
      percentage = abs(potential / epsilon) * 100
      ... significance ...
      print(f"{label:<10} {potential:<15.6f} {percentage:<10.3f} {significance:<20}")
  \<close>
  An exception leaves the rows printed so far on the output.
\<close>

fun print_rows ::
  "(real \<times> string \<times> string) list \<Rightarrow> real \<Rightarrow> real \<Rightarrow> out_line list \<Rightarrow>
     (py_error + unit) \<times> out_line list" where
  "print_rows [] epsilon sigma out = (Inr (), out)"
| "print_rows ((cutoff, label, color) # rest) epsilon sigma out =
     (case lennard_jones cutoff epsilon sigma of
        Inl err \<Rightarrow> (Inl err, out)
      | Inr potential \<Rightarrow>
          (case pf_truediv potential epsilon of
             Inl err \<Rightarrow> (Inl err, out)
           | Inr q \<Rightarrow>
               (let percentage = pf_mul (pf_abs q) 100
                in print_rows rest epsilon sigma
                     (out @ [Row label potential percentage (significance percentage)]))))"

text \<open>
  The lines on the computational impact:
  \<^verbatim>\<open>
  for cutoff, label in zip(cutoffs, cutoff_labels):
      volume = (4/3) * np.pi * cutoff**3
      neighbors = volume * density
      relative_cost = (cutoff/2.0)**3
      print(f"{label}: ~{neighbors:.0f} neighbors, {relative_cost:.2f}x computational cost")
  \<close>
  \<^verbatim>\<open>np.pi\<close> is a constant of numpy, not a literal of the module: the binary fraction
  nearest to \<open>\<pi>\<close> that a float holds, \<open>884279719003555 / 2 ^ 48\<close>.
\<close>

definition np_pi :: real where
  "np_pi = 884279719003555 / 281474976710656"

fun print_impact :: "(real \<times> string) list \<Rightarrow> real \<Rightarrow> out_line list \<Rightarrow> out_line list" where
  "print_impact [] density out = out"
| "print_impact ((cutoff, label) # rest) density out =
     (let volume = (4 / 3) * np_pi * cutoff ^ 3;
          neighbors = volume * density;
          relative_cost = (cutoff / 2.0) ^ 3
      in print_impact rest density (out @ [Impact label neighbors relative_cost]))"

text \<open>What the function computes for the figure.\<close>

record analysis =
  plot_potential_values :: "pyfloat list"
  plot_marks :: "(real \<times> pyfloat \<times> string \<times> string) list"
  plot_tail_potential :: "pyfloat list"
  plot_tail_marks :: "(real \<times> pyfloat \<times> string \<times> string) list"
  table_data :: "(real \<times> pyfloat \<times> pyfloat) list"

text \<open>
  The function, from the standard output before the call to the outcome and the standard
  output after it. The figure is computed and shown before the first line is printed, so
  an exception there leaves the output as it was.
\<close>

definition analyze_cutoff_comparison ::
  "out_line list \<Rightarrow> (py_error + analysis) \<times> out_line list" where
  "analyze_cutoff_comparison out0 =
     (let epsilon = 1.0;
          sigma = 1.0;
          r_values = linspace 0.9 4.0 1000
      in case lennard_jones_list r_values epsilon sigma of
           Inl err \<Rightarrow> (Inl err, out0)
         | Inr potential_values \<Rightarrow>
      (case mark_cutoffs (zip cutoffs (zip cutoff_labels colors)) epsilon sigma of
           Inl err \<Rightarrow> (Inl err, out0)
         | Inr marks \<Rightarrow>
      (let tail_r = linspace 2.0 4.0 500
       in case lennard_jones_list tail_r epsilon sigma of
           Inl err \<Rightarrow> (Inl err, out0)
         | Inr tail_potential \<Rightarrow>
      (case mark_cutoffs (zip cutoffs (zip cutoff_labels colors)) epsilon sigma of
           Inl err \<Rightarrow> (Inl err, out0)
         | Inr marks' \<Rightarrow>
      (case compare_cutoffs cutoffs epsilon sigma of
           Inl err \<Rightarrow> (Inl err, out0)
         | Inr comparison_data \<Rightarrow>
      (let out1 = out0 @
             [Text (replicate 60 CHR ''=''),
              Text ''LENNARD-JONES POTENTIAL CUTOFF ANALYSIS'',
              Text (replicate 60 CHR ''=''),
              Heading ''Cutoff'' ''Potential'' (''% of '' @ epsilon_utf8) ''Significance'',
              Text (replicate 60 CHR ''-'')]
       in case print_rows (zip cutoffs (zip cutoff_labels colors)) epsilon sigma out1 of
            (Inl err, out2) \<Rightarrow> (Inl err, out2)
          | (Inr u, out2) \<Rightarrow>
      (let out3 = out2 @
             [Text (CHR 0x0A # ''COMPUTATIONAL IMPACT:''),
              Text (replicate 30 CHR ''-'')];
           density = 0.8;
           out4 = print_impact (zip cutoffs cutoff_labels) density out3;
           out5 = out4 @
             [Text (CHR 0x0A # ''RECOMMENDATION:''),
              Text (replicate 15 CHR ''-''),
              Text (bullet_utf8 @ '' 2.0'' @ sigma_utf8 @
                    '':   Very efficient, potential = -0.0615'' @ epsilon_utf8 @ '' (6.15%)''),
              Text (bullet_utf8 @ '' 2.5'' @ sigma_utf8 @
                    '':   Standard choice, potential = -0.0163'' @ epsilon_utf8 @ '' (1.63%)''),
              Text (bullet_utf8 @ '' 3.0'' @ sigma_utf8 @
                    '':   High accuracy, potential = -0.0067'' @ epsilon_utf8 @ '' (0.67%)''),
              Text (CHR 0x0A # ''2.0'' @ sigma_utf8 @
                    '' cutoff sacrifices some accuracy for maximum speed.''),
              Text (''2.5'' @ sigma_utf8 @
                    '' remains the best balance for most applications.'')]
       in (Inr \<lparr>plot_potential_values = potential_values, plot_marks = marks,
                 plot_tail_potential = tail_potential, plot_tail_marks = marks',
                 table_data = comparison_data\<rparr>, out5))))))))"

subsection \<open>computational\_scaling\_demo\<close>

text \<open>\<^verbatim>\<open>[abs(lennard_jones(r)) for r in cutoffs]\<close>, with the default parameters of
  \<^verbatim>\<open>lennard_jones\<close>.\<close>

fun abs_potentials :: "real list \<Rightarrow> py_error + pyfloat list" where
  "abs_potentials [] = Inr []"
| "abs_potentials (r # rs) =
     (case lennard_jones r 1.0 1.0 of
        Inl err \<Rightarrow> Inl err
      | Inr v \<Rightarrow> (case abs_potentials rs of
                   Inl err \<Rightarrow> Inl err
                 | Inr vs \<Rightarrow> Inr (pf_abs v # vs)))"

text \<open>\<^verbatim>\<open>[(r/2.5)**3 for r in cutoffs]\<close>.\<close>

fun scaling_costs :: "real list \<Rightarrow> real list" where
  "scaling_costs [] = []"
| "scaling_costs (r # rs) = (r / 2.5) ^ 3 # scaling_costs rs"

text \<open>What the function computes for its two plots: the samples, the curve of the left
  plot and the curve of the right one. It prints nothing.\<close>

record scaling =
  demo_cutoffs :: "real list"
  demo_potentials :: "pyfloat list"
  demo_costs :: "real list"

definition computational_scaling_demo :: "py_error + scaling" where
  "computational_scaling_demo =
     (let cutoffs = linspace 1.8 4.0 50
      in case abs_potentials cutoffs of
           Inl err \<Rightarrow> Inl err
         | Inr potentials \<Rightarrow>
             (let computational_costs = scaling_costs cutoffs
              in Inr \<lparr>demo_cutoffs = cutoffs, demo_potentials = potentials,
                       demo_costs = computational_costs\<rparr>))"

subsection \<open>Notions used to state the properties\<close>

text \<open>The order of the tiers, from the weakest to the strongest; a text that is no tier
  ranks with the weakest.\<close>

definition tier_rank :: "string \<Rightarrow> nat" where
  "tier_rank tier =
     (if tier = ''High'' then 3
      else if tier = ''Significant'' then 2
      else if tier = ''Moderate'' then 1
      else 0)"


subsection \<open>Basic facts about the potential\<close>

lemma lennard_jones_below: "r < 0.01 \<Longrightarrow> lennard_jones r epsilon sigma = Inr PInf"
  by (simp add: lennard_jones_def)

lemma lennard_jones_above:
  assumes "\<not> r < 0.01"
  shows "lennard_jones r epsilon sigma =
    Inr (Fin (4 * epsilon * (((sigma / r) ^ 6)\<^sup>2 - (sigma / r) ^ 6)))"
proof -
  from assms have "r \<noteq> 0" by auto
  then have "py_truediv sigma r = Inr (sigma / r)"
    by (simp add: py_truediv_def)
  with assms show ?thesis
    by (simp add: lennard_jones_def Let_def)
qed

lemma lennard_jones_returns: "lennard_jones r epsilon sigma = Inr (projr (lennard_jones r epsilon sigma))"
  by (cases "r < 0.01") (simp_all add: lennard_jones_below lennard_jones_above)

lemma lennard_jones_at_2: "lennard_jones 2 1 1 = Inr (Fin (- 63 / 1024))"
  by (simp add: lennard_jones_def py_truediv_def Let_def power_divide)

lemma lennard_jones_at_2_5: "lennard_jones (5 / 2) 1 1 = Inr (Fin (- 3983616 / 244140625))"
  by (simp add: lennard_jones_def py_truediv_def Let_def power_divide)

lemma lennard_jones_at_3: "lennard_jones 3 1 1 = Inr (Fin (- 2912 / 531441))"
  by (simp add: lennard_jones_def py_truediv_def Let_def power_divide)

text \<open>The relation and the function describe the same runs.\<close>

lemma lennard_jones_exec_total:
  "lennard_jones_exec out r epsilon sigma (lennard_jones r epsilon sigma, out)"
proof (cases "r < 0.01")
  case True
  then show ?thesis
    by (simp add: lennard_jones_below lennard_jones_exec.clamp)
next
  case False
  then have "py_truediv sigma r = Inr (sigma / r)"
    by (simp add: py_truediv_def)
  from lennard_jones_exec.formula [OF False this refl]
  show ?thesis by (simp add: lennard_jones_above [OF False])
qed

text \<open>The well of \<open>4 * epsilon * (x\<^sup>2 - x)\<close>, where \<open>x\<close> stands for \<open>(sigma / r) ^ 6\<close>.\<close>

lemma well_depth_bound:
  fixes x epsilon :: real
  assumes "0 \<le> epsilon"
  shows "- epsilon \<le> 4 * epsilon * (x\<^sup>2 - x)"
proof -
  have "4 * epsilon * (x\<^sup>2 - x) + epsilon = epsilon * (2 * x - 1)\<^sup>2"
    by (simp add: power2_eq_square algebra_simps)
  moreover have "0 \<le> epsilon * (2 * x - 1)\<^sup>2"
    using assms by simp
  ultimately show ?thesis by linarith
qed

lemma well_depth_attained:
  fixes x :: real
  shows "4 * (x\<^sup>2 - x) = - 1 \<longleftrightarrow> x = 1 / 2"
proof -
  have "4 * (x\<^sup>2 - x) + 1 = (2 * x - 1)\<^sup>2"
    by (simp add: power2_eq_square algebra_simps)
  then have "4 * (x\<^sup>2 - x) = - 1 \<longleftrightarrow> (2 * x - 1)\<^sup>2 = 0"
    by linarith
  also have "\<dots> \<longleftrightarrow> 2 * x - 1 = 0"
    by (rule zero_eq_power2)
  also have "\<dots> \<longleftrightarrow> x = 1 / 2"
    by linarith
  finally show ?thesis .
qed

lemma root_6_2_above: "\<not> root 6 2 < (0.01::real)"
proof -
  have "(1::real) \<le> root 6 2" by simp
  moreover have "(0.01::real) \<le> 1" by simp
  ultimately have "0.01 \<le> root 6 2" by (rule order_trans [rotated])
  then show ?thesis by (simp only: not_less)
qed

subsection \<open>Basic facts about the loops\<close>

lemma lennard_jones_list_returns:
  "lennard_jones_list rs epsilon sigma = Inr (map (\<lambda>r. projr (lennard_jones r epsilon sigma)) rs)"
proof (induction rs)
  case Nil
  show ?case by simp
next
  case (Cons r rs)
  show ?case
  proof -
    obtain v where "lennard_jones r epsilon sigma = Inr v"
      using lennard_jones_returns by blast
    with Cons.IH show ?thesis by simp
  qed
qed

lemma abs_potentials_returns:
  "abs_potentials rs = Inr (map (\<lambda>r. pf_abs (projr (lennard_jones r 1 1))) rs)"
proof (induction rs)
  case Nil
  show ?case by simp
next
  case (Cons r rs)
  show ?case
  proof -
    obtain v where "lennard_jones r 1 1 = Inr v"
      using lennard_jones_returns by blast
    with Cons.IH show ?thesis by simp
  qed
qed

lemma scaling_costs_map: "scaling_costs rs = map (\<lambda>r. (r / 2.5) ^ 3) rs"
  by (induction rs) simp_all

lemma print_impact_appends:
  "print_impact zs density out =
     out @ map (\<lambda>(cutoff, label).
                  Impact label ((4 / 3) * np_pi * cutoff ^ 3 * density) ((cutoff / 2.0) ^ 3)) zs"
  by (induction zs arbitrary: out) (auto simp: Let_def)

lemma compare_cutoffs_cutoffs:
  "compare_cutoffs cutoffs 1 1 =
     Inr [(2, Fin (- 63 / 1024), Fin (1575 / 256)),
          (5 / 2, Fin (- 3983616 / 244140625), Fin (15934464 / 9765625)),
          (3, Fin (- 2912 / 531441), Fin (291200 / 531441))]"
  by (simp add: cutoffs_def lennard_jones_at_2 lennard_jones_at_2_5 lennard_jones_at_3
      pf_truediv_def pf_abs_def pf_mul_def Let_def)

lemma print_rows_cutoffs:
  "print_rows (zip cutoffs (zip cutoff_labels colors)) 1 1 out =
     (Inr (), out @
       [Row (''2.0'' @ sigma_utf8) (Fin (- 63 / 1024)) (Fin (1575 / 256)) ''High'',
        Row (''2.5'' @ sigma_utf8) (Fin (- 3983616 / 244140625)) (Fin (15934464 / 9765625))
          ''Moderate'',
        Row (''3.0'' @ sigma_utf8) (Fin (- 2912 / 531441)) (Fin (291200 / 531441))
          ''Negligible''])"
  by (simp add: cutoffs_def cutoff_labels_def colors_def lennard_jones_at_2 lennard_jones_at_2_5
      lennard_jones_at_3 pf_truediv_def pf_abs_def pf_mul_def Let_def significance_def pf_gt_def)


text \<open>The whole run of \<open>analyze_cutoff_comparison\<close>: it raises nothing, and these are the
  data of the figure and the lines it prints.\<close>

lemma analyze_cutoff_comparison_result:
  "analyze_cutoff_comparison out0 =
     (Inr \<lparr>plot_potential_values =
             map (\<lambda>r. projr (lennard_jones r 1 1)) (linspace 0.9 4.0 1000),
           plot_marks =
             [(2, Fin (- 63 / 1024), ''2.0'' @ sigma_utf8, ''red''),
              (5 / 2, Fin (- 3983616 / 244140625), ''2.5'' @ sigma_utf8, ''blue''),
              (3, Fin (- 2912 / 531441), ''3.0'' @ sigma_utf8, ''green'')],
           plot_tail_potential =
             map (\<lambda>r. projr (lennard_jones r 1 1)) (linspace 2.0 4.0 500),
           plot_tail_marks =
             [(2, Fin (- 63 / 1024), ''2.0'' @ sigma_utf8, ''red''),
              (5 / 2, Fin (- 3983616 / 244140625), ''2.5'' @ sigma_utf8, ''blue''),
              (3, Fin (- 2912 / 531441), ''3.0'' @ sigma_utf8, ''green'')],
           table_data =
             [(2, Fin (- 63 / 1024), Fin (1575 / 256)),
              (5 / 2, Fin (- 3983616 / 244140625), Fin (15934464 / 9765625)),
              (3, Fin (- 2912 / 531441), Fin (291200 / 531441))]\<rparr>,
      out0 @
        [Text (replicate 60 CHR ''=''),
         Text ''LENNARD-JONES POTENTIAL CUTOFF ANALYSIS'',
         Text (replicate 60 CHR ''=''),
         Heading ''Cutoff'' ''Potential'' (''% of '' @ epsilon_utf8) ''Significance'',
         Text (replicate 60 CHR ''-''),
         Row (''2.0'' @ sigma_utf8) (Fin (- 63 / 1024)) (Fin (1575 / 256)) ''High'',
         Row (''2.5'' @ sigma_utf8) (Fin (- 3983616 / 244140625)) (Fin (15934464 / 9765625))
           ''Moderate'',
         Row (''3.0'' @ sigma_utf8) (Fin (- 2912 / 531441)) (Fin (291200 / 531441))
           ''Negligible'',
         Text (CHR 0x0A # ''COMPUTATIONAL IMPACT:''),
         Text (replicate 30 CHR ''-''),
         Impact (''2.0'' @ sigma_utf8) ((4 / 3) * np_pi * 2 ^ 3 * 0.8) 1,
         Impact (''2.5'' @ sigma_utf8) ((4 / 3) * np_pi * (5 / 2) ^ 3 * 0.8) (125 / 64),
         Impact (''3.0'' @ sigma_utf8) ((4 / 3) * np_pi * 3 ^ 3 * 0.8) (27 / 8),
         Text (CHR 0x0A # ''RECOMMENDATION:''),
         Text (replicate 15 CHR ''-''),
         Text (bullet_utf8 @ '' 2.0'' @ sigma_utf8 @
               '':   Very efficient, potential = -0.0615'' @ epsilon_utf8 @ '' (6.15%)''),
         Text (bullet_utf8 @ '' 2.5'' @ sigma_utf8 @
               '':   Standard choice, potential = -0.0163'' @ epsilon_utf8 @ '' (1.63%)''),
         Text (bullet_utf8 @ '' 3.0'' @ sigma_utf8 @
               '':   High accuracy, potential = -0.0067'' @ epsilon_utf8 @ '' (0.67%)''),
         Text (CHR 0x0A # ''2.0'' @ sigma_utf8 @
               '' cutoff sacrifices some accuracy for maximum speed.''),
         Text (''2.5'' @ sigma_utf8 @
               '' remains the best balance for most applications.'')])"
proof -
  have marks: "mark_cutoffs (zip cutoffs (zip cutoff_labels colors)) 1 1 =
      Inr [(2, Fin (- 63 / 1024), ''2.0'' @ sigma_utf8, ''red''),
           (5 / 2, Fin (- 3983616 / 244140625), ''2.5'' @ sigma_utf8, ''blue''),
           (3, Fin (- 2912 / 531441), ''3.0'' @ sigma_utf8, ''green'')]"
    by (simp add: cutoffs_def cutoff_labels_def colors_def lennard_jones_at_2
        lennard_jones_at_2_5 lennard_jones_at_3)
  have impact: "print_impact (zip cutoffs cutoff_labels) (4 / 5) out =
      out @ [Impact (''2.0'' @ sigma_utf8) ((4 / 3) * np_pi * 2 ^ 3 * 0.8) 1,
             Impact (''2.5'' @ sigma_utf8) ((4 / 3) * np_pi * (5 / 2) ^ 3 * 0.8) (125 / 64),
             Impact (''3.0'' @ sigma_utf8) ((4 / 3) * np_pi * 3 ^ 3 * 0.8) (27 / 8)]" for out
    by (simp add: print_impact_appends cutoffs_def cutoff_labels_def power_divide)
  show ?thesis
    unfolding analyze_cutoff_comparison_def Let_def
    by (simp add: lennard_jones_list_returns marks compare_cutoffs_cutoffs print_rows_cutoffs
        impact)
qed

section \<open>The specification's claims\<close>

subsection \<open>The potential\<close>





text \<open>
  C6. With \<open>epsilon = sigma = 1\<close> the potential takes the value \<open>- 1\<close> at \<open>r = 2 ^ (1 / 6)\<close>,
  no distance \<open>r > 0\<close> gives a smaller value (below the threshold the value is positive
  infinity), every \<open>r\<close> at or above the threshold gives a finite value of at least \<open>- 1\<close>,
  and \<open>2 ^ (1 / 6)\<close> is the only positive distance with the value \<open>- 1\<close>.
\<close>

theorem lennard_jones_minimum:
  "lennard_jones (root 6 2) 1 1 = Inr (Fin (- 1))
   \<and> (0 < r \<longrightarrow> lennard_jones r 1 1 = Inr PInf
         \<or> (\<exists>x. lennard_jones r 1 1 = Inr (Fin x) \<and> - 1 \<le> x))
   \<and> (0.01 \<le> r \<longrightarrow> (\<exists>x. lennard_jones r 1 1 = Inr (Fin x) \<and> - 1 \<le> x))
   \<and> (0 < r \<and> lennard_jones r 1 1 = Inr (Fin (- 1)) \<longrightarrow> r = root 6 2)"
proof -
  have at_min: "lennard_jones (root 6 2) 1 1 = Inr (Fin (- 1))"
  proof -
    have half: "(1 / root 6 2 :: real) ^ 6 = 1 / 2"
      by (simp add: power_divide)
    have "4 * 1 * (((1 / root 6 2 :: real) ^ 6)\<^sup>2 - (1 / root 6 2) ^ 6) = - 1"
      unfolding half by (simp add: power2_eq_square)
    then show ?thesis
      by (simp only: lennard_jones_above [OF root_6_2_above])
  qed
  have bound: "\<exists>x. lennard_jones r 1 1 = Inr (Fin x) \<and> - 1 \<le> x" if "\<not> r < 0.01"
    using well_depth_bound [of 1 "(1 / r) ^ 6"] by (simp add: lennard_jones_above [OF that])
  have unique: "r = root 6 2" if "0 < r" and val: "lennard_jones r 1 1 = Inr (Fin (- 1))"
  proof -
    have above: "\<not> r < 0.01"
      using val by (auto simp: lennard_jones_below)
    from val have "4 * (((1 / r) ^ 6)\<^sup>2 - (1 / r) ^ 6) = - 1"
      by (simp add: lennard_jones_above [OF above])
    then have "(1 / r) ^ 6 = 1 / 2"
      by (simp only: well_depth_attained)
    then have "r ^ 6 = 2"
      using \<open>0 < r\<close> by (simp add: field_simps)
    then have "root 6 2 = r"
      using \<open>0 < r\<close> by (intro real_root_pos_unique) simp_all
    then show ?thesis by simp
  qed
  show ?thesis
    using at_min bound unique
    by (cases "r < 0.01") (auto simp: lennard_jones_below)
qed

theorem lennard_jones_minimum_witness:
  "(0::real) < 2 \<and> (0.01::real) \<le> 2 \<and> lennard_jones 2 1 1 = Inr (Fin (- 63 / 1024))
    \<and> - 1 \<le> (- 63 / 1024 :: real)
    \<and> (0::real) < 0.001 \<and> lennard_jones 0.001 1 1 = Inr PInf"
  using lennard_jones_minimum [of 2] lennard_jones_minimum [of "0.001"]
  by (simp add: lennard_jones_def py_truediv_def Let_def power_divide)

text \<open>
  C7. With \<open>epsilon = sigma = 1\<close>, the potential at \<open>r = sigma = 1\<close> is exactly 0: the
  zero crossing.
\<close>

theorem lennard_jones_zero_crossing: "lennard_jones 1 1 1 = Inr (Fin 0)"
  by (simp add: lennard_jones_def py_truediv_def)

text \<open>
  C9. The potential is deterministic and free of side effects: any two runs with the same
  arguments \<open>(r, epsilon, sigma)\<close>, from whatever standard output, end with the same
  outcome, the one the function computes from the arguments alone, and each leaves the
  standard output as it found it.
\<close>

theorem lennard_jones_deterministic:
  fixes out out2 :: "'o list"
  assumes "lennard_jones_exec out r epsilon sigma (res, out')"
    and "lennard_jones_exec out2 r epsilon sigma (res2, out2')"
  shows "res = res2 \<and> res = lennard_jones r epsilon sigma \<and> out' = out \<and> out2' = out2"
proof -
  have one: "res = lennard_jones r epsilon sigma \<and> out' = out"
    if "lennard_jones_exec out r epsilon sigma (res, out')" for out out' :: "'o list" and res
    using that
    by (cases rule: lennard_jones_exec.cases) (simp_all add: lennard_jones_def Let_def)
  from one [OF assms(1)] one [OF assms(2)] show ?thesis by simp
qed

theorem lennard_jones_deterministic_witness:
  "lennard_jones_exec [''shown''] 2 1 1 (Inr (Fin (- 63 / 1024)), [''shown''])
   \<and> lennard_jones_exec ([] :: string list) 2 1 1 (lennard_jones 2 1 1, [])
   \<and> Inr (Fin (- 63 / 1024)) = lennard_jones 2 1 1"
proof -
  have a: "lennard_jones_exec [''shown''] 2 1 1 (lennard_jones 2 1 1, [''shown''])"
    by (rule lennard_jones_exec_total)
  have b: "lennard_jones_exec ([] :: string list) 2 1 1 (lennard_jones 2 1 1, [])"
    by (rule lennard_jones_exec_total)
  from lennard_jones_deterministic [OF a b] a b lennard_jones_at_2 show ?thesis by simp
qed



subsection \<open>The cutoff comparison\<close>

text \<open>
  C3. For every percentage \<open>p\<close> the tier is \<open>High\<close> exactly when \<open>p > 5\<close>, otherwise
  \<open>Significant\<close> exactly when \<open>p > 2\<close>, otherwise \<open>Moderate\<close> exactly when \<open>p > 1\<close>,
  otherwise \<open>Negligible\<close>. The thresholds are strict: 5 is not \<open>High\<close> and 1 is
  \<open>Negligible\<close>. An infinite percentage is \<open>High\<close>. The tier is monotonic in \<open>p\<close>.
\<close>

theorem significance_thresholds:
  "(significance (Fin p) = ''High'' \<longleftrightarrow> 5 < p)
   \<and> (significance (Fin p) = ''Significant'' \<longleftrightarrow> 2 < p \<and> p \<le> 5)
   \<and> (significance (Fin p) = ''Moderate'' \<longleftrightarrow> 1 < p \<and> p \<le> 2)
   \<and> (significance (Fin p) = ''Negligible'' \<longleftrightarrow> p \<le> 1)
   \<and> significance (Fin 5) \<noteq> ''High''
   \<and> significance (Fin 1) = ''Negligible''
   \<and> significance PInf = ''High''
   \<and> (p \<le> q \<longrightarrow> tier_rank (significance (Fin p)) \<le> tier_rank (significance (Fin q)))"
  by (auto simp: significance_def pf_gt_def tier_rank_def)

theorem significance_thresholds_witness:
  "(5::real) \<le> 6 \<and> significance (Fin 5) = ''Significant'' \<and> significance (Fin 6) = ''High''
   \<and> tier_rank (significance (Fin 5)) \<le> tier_rank (significance (Fin 6))"
  using significance_thresholds [of 5 6]
  by (simp add: significance_def pf_gt_def tier_rank_def)

text \<open>
  C4, as the specification states it, fails: with \<open>epsilon = sigma = 1\<close> the potential at
  the cutoff 3.0 is \<open>- 2912 / 531441\<close>, about \<open>- 0.00548\<close>, which is farther than
  \<open>0.001\<close> from \<open>- 0.0067\<close>.
\<close>

theorem cutoff_3_not_near_0067:
  "lennard_jones 3 1 1 = Inr (Fin (- 2912 / 531441))
   \<and> \<not> \<bar>(- 2912 / 531441 :: real) - (- 0.0067)\<bar> \<le> 0.001"
  by (simp add: lennard_jones_at_3)

text \<open>
  C4, amended. With \<open>epsilon = sigma = 1\<close> and the cutoff 3.0, the potential is
  \<open>- 2912 / 531441\<close>, within \<open>0.001\<close> of \<open>- 0.0055\<close>; the percentage
  \<open>abs (V / epsilon) * 100\<close> is \<open>291200 / 531441\<close>, within \<open>0.001\<close> of \<open>0.548\<close>; the tier
  is \<open>Negligible\<close>; and this is the row the report prints for the label of 3.0.
\<close>

theorem cutoff_3_scenario:
  "lennard_jones 3 1 1 = Inr (Fin (- 2912 / 531441))
   \<and> \<bar>(- 2912 / 531441 :: real) - (- 0.0055)\<bar> \<le> 0.001
   \<and> pf_truediv (Fin (- 2912 / 531441)) 1 = Inr (Fin (- 2912 / 531441))
   \<and> pf_mul (pf_abs (Fin (- 2912 / 531441))) 100 = Fin (291200 / 531441)
   \<and> \<bar>(291200 / 531441 :: real) - 0.548\<bar> \<le> 0.001
   \<and> significance (Fin (291200 / 531441)) = ''Negligible''
   \<and> Row (''3.0'' @ sigma_utf8) (Fin (- 2912 / 531441)) (Fin (291200 / 531441)) ''Negligible''
        \<in> set (snd (analyze_cutoff_comparison []))"
  by (simp add: lennard_jones_at_3 pf_truediv_def pf_abs_def pf_mul_def significance_def
      pf_gt_def analyze_cutoff_comparison_result)

text \<open>
  C5. The relative computational cost is \<open>(cutoff / reference) ^ 3\<close>: every line on the
  computational impact carries \<open>(cutoff / 2.0) ^ 3\<close>, and the costs of the scaling
  demonstration are \<open>(r / 2.5) ^ 3\<close> over its samples. In the report the line of the
  cutoff 2.0 carries the cost 1.0 and the line of the cutoff 3.0 the cost 3.375.
\<close>

theorem relative_cost_cubic:
  "print_impact zs density out =
     out @ map (\<lambda>(cutoff, label).
                  Impact label ((4 / 3) * np_pi * cutoff ^ 3 * density) ((cutoff / 2.0) ^ 3)) zs
   \<and> scaling_costs rs = map (\<lambda>r. (r / 2.5) ^ 3) rs
   \<and> map_sum id demo_costs computational_scaling_demo =
       Inr (map (\<lambda>r. (r / 2.5) ^ 3) (linspace 1.8 4.0 50))
   \<and> Impact (''2.0'' @ sigma_utf8) ((4 / 3) * np_pi * 2.0 ^ 3 * 0.8) 1.0
        \<in> set (snd (analyze_cutoff_comparison []))
   \<and> Impact (''3.0'' @ sigma_utf8) ((4 / 3) * np_pi * 3.0 ^ 3 * 0.8) 3.375
        \<in> set (snd (analyze_cutoff_comparison []))
   \<and> (2.0 / 2.0 :: real) ^ 3 = 1.0 \<and> (3.0 / 2.0 :: real) ^ 3 = 3.375"
proof -
  have demo: "map_sum id demo_costs computational_scaling_demo =
       Inr (map (\<lambda>r. (r / 2.5) ^ 3) (linspace 1.8 4.0 50))"
    by (simp add: computational_scaling_demo_def abs_potentials_returns scaling_costs_map Let_def)
  have report: "Impact (''2.0'' @ sigma_utf8) ((4 / 3) * np_pi * 2.0 ^ 3 * 0.8) 1.0
        \<in> set (snd (analyze_cutoff_comparison []))"
    "Impact (''3.0'' @ sigma_utf8) ((4 / 3) * np_pi * 3.0 ^ 3 * 0.8) 3.375
        \<in> set (snd (analyze_cutoff_comparison []))"
    by (simp_all add: analyze_cutoff_comparison_result)
  have "(2.0 / 2.0 :: real) ^ 3 = 1.0" "(3.0 / 2.0 :: real) ^ 3 = 3.375"
    by (simp_all add: power_divide)
  with demo report show ?thesis
    by (simp only: print_impact_appends scaling_costs_map simp_thms)
qed



end
